theory Spec2Isabelle
  imports Main
begin

section \<open>PaperMC.ts: a typed client of the PaperMC build-distribution API\<close>

text \<open>
  The repository is one TypeScript module, \<^verbatim>\<open>src/PaperMC.ts\<close>: type declarations for the
  API's responses, one module-level axios instance \<^verbatim>\<open>paperAPIInstance\<close> and the class
  \<^verbatim>\<open>PaperMC\<close> with nine static methods. This theory embeds the module shallowly:
  \<^item> the declared response shapes become records, the \<^verbatim>\<open>Channel\<close> union a datatype;
  \<^item> a value that reaches a template placeholder \<^verbatim>\<open>${...}\<close> is a \<open>js_value\<close>, and
    the placeholder applies JavaScript's \<open>ToString\<close> to it;
  \<^item> the network is explicit state: every method takes the client state (the instance's
    base address, the remote world and the list of requests sent so far) and returns the
    state it leaves; the HTTP transport itself is a parameter \<open>t\<close>;
  \<^item> a rejected promise and a thrown exception are a value \<open>Inl e\<close>, a fulfilled
    promise is \<open>Inr v\<close>.
\<close>

subsection \<open>API types (lines 3--39)\<close>

type_synonym Project = string
type_synonym Version = string
type_synonym Build = int
type_synonym Family = string

datatype Channel = Channel_default | Channel_experimental

record Change =
  commit :: string
  summary :: string
  message :: string

record Download =
  name :: string
  sha256 :: string

record VersionBuild =
  build :: Build
  time :: string
  channel :: Channel
  promoted :: bool
  changes :: "Change list"
  downloads :: "(string \<times> Download) list"

record VersionFamilyBuild =
  version :: Version
  build :: Build
  time :: string
  channel :: Channel
  promoted :: bool
  changes :: "Change list"
  downloads :: "(string \<times> Download) list"

subsection \<open>Response types (lines 41--92)\<close>

record ProjectsResponse =
  projects :: "Project list"

record ProjectResponse =
  project_id :: Project
  project_name :: string
  version_groups :: "string list"
  versions :: "Version list"

record VersionResponse =
  project_id :: Project
  project_name :: string
  version :: Version
  builds :: "Build list"

record BuildsResponse =
  project_id :: Project
  project_name :: string
  version :: Version
  builds :: "VersionBuild list"

record BuildResponse =
  project_id :: Project
  project_name :: string
  version :: Version
  build :: Build
  time :: string
  channel :: Channel
  promoted :: bool
  changes :: "Change list"
  downloads :: "(string \<times> Download) list"

record VersionFamilyResponse =
  project_id :: Project
  project_name :: string
  version_group :: Family
  versions :: "Version list"

record VersionFamilyBuildsResponse =
  project_id :: Project
  project_name :: string
  version_group :: Family
  versions :: "Version list"
  builds :: "VersionFamilyBuild list"

text \<open>
  TypeScript erases the type argument of \<^verbatim>\<open>paperAPIInstance.get<T>(...)\<close>: one transport
  answers every request, and the body it decodes is whatever the server sent. The decoded
  body of a request is therefore one value of the union of the seven declared shapes.
\<close>

datatype response =
    ProjectsData ProjectsResponse
  | ProjectData ProjectResponse
  | VersionData VersionResponse
  | BuildsData BuildsResponse
  | BuildData BuildResponse
  | VersionFamilyData VersionFamilyResponse
  | VersionFamilyBuildsData VersionFamilyBuildsResponse

subsection \<open>Runtime values and template literals\<close>

text \<open>
  The identifiers are declared \<^verbatim>\<open>string\<close> and \<^verbatim>\<open>number\<close>, but an out-of-range array read
  yields \<^verbatim>\<open>undefined\<close> at run time, and the methods interpolate whatever they are given.
  \<open>JSNumber n\<close> is the JavaScript number of integral value \<open>n\<close>. JavaScript prints
  a safe integer (magnitude at most \<open>2\<^sup>5\<^sup>3 - 1\<close>) as its exact decimal digits, with a
  leading minus sign when negative, and \<open>NumberToString\<close> is that printing. Beyond the
  safe integers a number is a rounded double and prints differently (\<open>2\<^sup>6\<^sup>0\<close> as
  \<^verbatim>\<open>1152921504606847000\<close>, \<open>10\<^sup>2\<^sup>1\<close> as \<^verbatim>\<open>1e+21\<close>): a theorem that states the digits
  of a number assumes it \<open>safe_integer\<close>. Non-integral numbers, \<^verbatim>\<open>NaN\<close> and the
  infinities are left out.
\<close>

datatype js_value = JSUndefined | JSString string | JSNumber int

definition digit :: "nat \<Rightarrow> char" where
  "digit d = ''0123456789'' ! d"

fun digits :: "nat \<Rightarrow> string" where
  "digits n = (if n < 10 then [digit n] else digits (n div 10) @ [digit (n mod 10)])"

declare digits.simps [simp del]

definition NumberToString :: "int \<Rightarrow> string" where
  "NumberToString n = (if n < 0 then ''-'' @ digits (nat (- n)) else digits (nat n))"

fun ToString :: "js_value \<Rightarrow> string" where
  "ToString JSUndefined = ''undefined''"
| "ToString (JSString s) = s"
| "ToString (JSNumber n) = NumberToString n"

definition safe_integer :: "int \<Rightarrow> bool" where
  "safe_integer n = (- 9007199254740991 \<le> n \<and> n \<le> 9007199254740991)"

text \<open>
  The decimal numeral of an integer, said by what the string is and not by how it is
  computed: digits only, no leading zero but for \<^verbatim>\<open>0\<close> itself, the value read back digit
  by digit, and a minus sign in front of the numeral of a negative number.
\<close>

definition is_digit :: "char \<Rightarrow> bool" where
  "is_digit c = (c \<in> set ''0123456789'')"

definition decimal_digits :: "nat \<Rightarrow> string \<Rightarrow> bool" where
  "decimal_digits n ms =
     (ms \<noteq> [] \<and> list_all is_digit ms
      \<and> (hd ms = CHR ''0'' \<longrightarrow> ms = ''0'')
      \<and> foldl (\<lambda>a c. 10 * a + (of_char c - 48)) 0 ms = n)"

definition decimal_numeral :: "int \<Rightarrow> string \<Rightarrow> bool" where
  "decimal_numeral n ds =
     (if n < 0 then ds \<noteq> [] \<and> hd ds = CHR ''-'' \<and> decimal_digits (nat (- n)) (tl ds)
      else decimal_digits (nat n) ds)"

text \<open>\<^verbatim>\<open>xs[xs.length - 1]\<close>: the last element, \<^verbatim>\<open>undefined\<close> (\<open>None\<close>) on an empty array.\<close>

definition index_last :: "'a list \<Rightarrow> 'a option" where
  "index_last xs = (if length xs = 0 then None else Some (xs ! (length xs - 1)))"

subsection \<open>The axios instance (lines 94--96)\<close>

datatype http_verb = GET | HEAD | POST | PUT | DELETE | PATCH | OPTIONS

record request =
  req_verb :: http_verb
  req_baseURL :: string
  req_url :: string

record 'd AxiosResponse =
  data :: 'd
  status :: int

text \<open>What a promise is rejected with: a \<^verbatim>\<open>TypeError\<close> or an error \<open>'e\<close> of the transport.\<close>

datatype 'e js_error = TypeError | AxiosError 'e

text \<open>
  The transport: given a request and the remote world \<open>'w\<close>, it rejects or answers with
  a response, and leaves a remote world.
\<close>

type_synonym ('w, 'e, 'd) transport =
  "request \<Rightarrow> 'w \<Rightarrow> ('e js_error + 'd AxiosResponse) \<times> 'w"

record 'w client =
  baseURL :: string
  remote :: 'w
  sent :: "request list"

text \<open>\<^verbatim>\<open>axios.create({ baseURL: 'https://api.papermc.io/v2' })\<close>, before any request.\<close>

definition paperAPIInstance :: "'w \<Rightarrow> 'w client" where
  "paperAPIInstance w = \<lparr>baseURL = ''https://api.papermc.io/v2'', remote = w, sent = []\<rparr>"

text \<open>
  Modelled from the spec: the axios library is a dependency, not a file of the
  repository. \<open>axios_get\<close> is \<^verbatim>\<open>paperAPIInstance.get(path)\<close>: one GET request for \<open>path\<close>
  relative to the instance's base address, handed to the transport and recorded in
  \<open>sent\<close>. \<open>getUri\<close> is \<^verbatim>\<open>paperAPIInstance.getUri()\<close>: with no request URL it is the base
  address (the spec's \<^verbatim>\<open>{baseURL}\<close>), and it sends nothing.
\<close>

definition get_request :: "'w client \<Rightarrow> string \<Rightarrow> request" where
  "get_request s path = \<lparr>req_verb = GET, req_baseURL = baseURL s, req_url = path\<rparr>"

definition axios_get ::
  "('w, 'e, 'd) transport \<Rightarrow> string \<Rightarrow> 'w client \<Rightarrow> ('e js_error + 'd AxiosResponse) \<times> 'w client" where
  "axios_get t path s =
     (let rq = get_request s path;
          (r, w') = t rq (remote s)
      in (r, s\<lparr>remote := w', sent := sent s @ [rq]\<rparr>))"

definition getUri :: "'w client \<Rightarrow> string" where
  "getUri s = baseURL s"

subsection \<open>The class PaperMC (lines 98--204)\<close>

text \<open>\<^verbatim>\<open>const { data } = await r; return data\<close>: a rejection passes through.\<close>

definition return_data ::
  "('e js_error + 'd AxiosResponse) \<times> 's \<Rightarrow> ('e js_error + 'd) \<times> 's" where
  "return_data r = (case r of (Inl e, s) \<Rightarrow> (Inl e, s) | (Inr resp, s) \<Rightarrow> (Inr (data resp), s))"

definition getProjects ::
  "('w, 'e, 'd) transport \<Rightarrow> 'w client \<Rightarrow> ('e js_error + 'd) \<times> 'w client" where
  "getProjects t s = return_data (axios_get t ''/projects'' s)"

definition getProject ::
  "('w, 'e, 'd) transport \<Rightarrow> js_value \<Rightarrow> 'w client \<Rightarrow> ('e js_error + 'd) \<times> 'w client" where
  "getProject t project s = return_data (axios_get t (''/projects/'' @ ToString project) s)"

definition getVersion ::
  "('w, 'e, 'd) transport \<Rightarrow> js_value \<Rightarrow> js_value \<Rightarrow> 'w client \<Rightarrow> ('e js_error + 'd) \<times> 'w client" where
  "getVersion t project version' s =
     return_data (axios_get t (''/projects/'' @ ToString project @ ''/versions/'' @ ToString version') s)"

definition getBuilds ::
  "('w, 'e, 'd) transport \<Rightarrow> js_value \<Rightarrow> js_value \<Rightarrow> 'w client \<Rightarrow> ('e js_error + 'd) \<times> 'w client" where
  "getBuilds t project version' s =
     return_data (axios_get t
       (''/projects/'' @ ToString project @ ''/versions/'' @ ToString version' @ ''/builds'') s)"

definition getBuild ::
  "('w, 'e, 'd) transport \<Rightarrow> js_value \<Rightarrow> js_value \<Rightarrow> js_value \<Rightarrow> 'w client
     \<Rightarrow> ('e js_error + 'd) \<times> 'w client" where
  "getBuild t project version' build' s =
     return_data (axios_get t
       (''/projects/'' @ ToString project @ ''/versions/'' @ ToString version'
          @ ''/builds/'' @ ToString build') s)"

definition getDownloadURL ::
  "js_value \<Rightarrow> js_value \<Rightarrow> js_value \<Rightarrow> 'w client \<Rightarrow> string \<times> 'w client" where
  "getDownloadURL project version' build' s =
     (getUri s @ ''/projects/'' @ ToString project @ ''/versions/'' @ ToString version'
        @ ''/builds/'' @ ToString build' @ ''/downloads/'' @ ToString project @ ''-''
        @ ToString version' @ ''-'' @ ToString build' @ ''.jar'', s)"

definition getVersionFamily ::
  "('w, 'e, 'd) transport \<Rightarrow> js_value \<Rightarrow> js_value \<Rightarrow> 'w client \<Rightarrow> ('e js_error + 'd) \<times> 'w client" where
  "getVersionFamily t project family s =
     return_data (axios_get t
       (''/projects/'' @ ToString project @ ''/version_group/'' @ ToString family) s)"

definition getVersionFamilyBuilds ::
  "('w, 'e, 'd) transport \<Rightarrow> js_value \<Rightarrow> js_value \<Rightarrow> 'w client \<Rightarrow> ('e js_error + 'd) \<times> 'w client" where
  "getVersionFamilyBuilds t project family s =
     return_data (axios_get t
       (''/projects/'' @ ToString project @ ''/version_group/'' @ ToString family @ ''/builds'') s)"

text \<open>
  The property reads of \<^verbatim>\<open>getLatestVersionDownloadURL\<close> on a decoded body: a shape that
  does not declare the property yields \<^verbatim>\<open>undefined\<close> (\<open>None\<close>). An element of a
  \<^verbatim>\<open>builds\<close> array is a number (\<^verbatim>\<open>VersionResponse\<close>) or a build record; a number has no
  property \<^verbatim>\<open>build\<close>.
\<close>

fun prop_versions :: "response \<Rightarrow> Version list option" where
  "prop_versions (ProjectData r) = Some (ProjectResponse.versions r)"
| "prop_versions (VersionFamilyData r) = Some (VersionFamilyResponse.versions r)"
| "prop_versions (VersionFamilyBuildsData r) = Some (VersionFamilyBuildsResponse.versions r)"
| "prop_versions _ = None"

datatype builds_item =
    BuildNumber Build
  | BuildRecord VersionBuild
  | FamilyBuildRecord VersionFamilyBuild

fun prop_builds :: "response \<Rightarrow> builds_item list option" where
  "prop_builds (VersionData r) = Some (map BuildNumber (VersionResponse.builds r))"
| "prop_builds (BuildsData r) = Some (map BuildRecord (BuildsResponse.builds r))"
| "prop_builds (VersionFamilyBuildsData r) =
     Some (map FamilyBuildRecord (VersionFamilyBuildsResponse.builds r))"
| "prop_builds _ = None"

fun prop_build :: "builds_item \<Rightarrow> js_value" where
  "prop_build (BuildNumber n) = JSUndefined"
| "prop_build (BuildRecord b) = JSNumber (VersionBuild.build b)"
| "prop_build (FamilyBuildRecord b) = JSNumber (VersionFamilyBuild.build b)"

text \<open>
  Lines 199--203. \<^verbatim>\<open>versions.length\<close> and \<^verbatim>\<open>builds.length\<close> throw a \<^verbatim>\<open>TypeError\<close> on
  \<^verbatim>\<open>undefined\<close>, and so does \<^verbatim>\<open>.build\<close> on the \<^verbatim>\<open>undefined\<close> that an empty \<^verbatim>\<open>builds\<close>
  array yields; \<^verbatim>\<open>versions[versions.length - 1]\<close> on an empty array is \<^verbatim>\<open>undefined\<close> and
  throws nothing.
\<close>

definition last_version :: "Version list \<Rightarrow> js_value" where
  "last_version vs = (case index_last vs of None \<Rightarrow> JSUndefined | Some v \<Rightarrow> JSString v)"

definition getLatestVersionDownloadURL ::
  "('w, 'e, response) transport \<Rightarrow> js_value \<Rightarrow> 'w client \<Rightarrow> ('e js_error + string) \<times> 'w client" where
  "getLatestVersionDownloadURL t project s =
     (case getProject t project s of
        (Inl e, s1) \<Rightarrow> (Inl e, s1)
      | (Inr d1, s1) \<Rightarrow>
          (case prop_versions d1 of
             None \<Rightarrow> (Inl TypeError, s1)
           | Some vs \<Rightarrow>
               (case getBuilds t project (last_version vs) s1 of
                  (Inl e, s2) \<Rightarrow> (Inl e, s2)
                | (Inr d2, s2) \<Rightarrow>
                    (case prop_builds d2 of
                       None \<Rightarrow> (Inl TypeError, s2)
                     | Some bs \<Rightarrow>
                         (case index_last bs of
                            None \<Rightarrow> (Inl TypeError, s2)
                          | Some b \<Rightarrow>
                              (case getDownloadURL project (last_version vs) (prop_build b) s2 of
                                 (u, s3) \<Rightarrow> (Inr u, s3)))))))"

subsection \<open>Callers and test doubles\<close>

text \<open>
  A caller uses the class through a sequence of calls; \<open>after_calls\<close> is the client
  state such a sequence leaves, whatever the calls return.
\<close>

datatype call =
    CallGetProjects
  | CallGetProject js_value
  | CallGetVersion js_value js_value
  | CallGetBuilds js_value js_value
  | CallGetBuild js_value js_value js_value
  | CallGetDownloadURL js_value js_value js_value
  | CallGetVersionFamily js_value js_value
  | CallGetVersionFamilyBuilds js_value js_value
  | CallGetLatestVersionDownloadURL js_value

fun after_call :: "('w, 'e, response) transport \<Rightarrow> 'w client \<Rightarrow> call \<Rightarrow> 'w client" where
  "after_call t s CallGetProjects = snd (getProjects t s)"
| "after_call t s (CallGetProject p) = snd (getProject t p s)"
| "after_call t s (CallGetVersion p v) = snd (getVersion t p v s)"
| "after_call t s (CallGetBuilds p v) = snd (getBuilds t p v s)"
| "after_call t s (CallGetBuild p v b) = snd (getBuild t p v b s)"
| "after_call t s (CallGetDownloadURL p v b) = snd (getDownloadURL p v b s)"
| "after_call t s (CallGetVersionFamily p f) = snd (getVersionFamily t p f s)"
| "after_call t s (CallGetVersionFamilyBuilds p f) = snd (getVersionFamilyBuilds t p f s)"
| "after_call t s (CallGetLatestVersionDownloadURL p) = snd (getLatestVersionDownloadURL t p s)"

definition after_calls ::
  "('w, 'e, response) transport \<Rightarrow> 'w client \<Rightarrow> call list \<Rightarrow> 'w client" where
  "after_calls t s cs = foldl (after_call t) s cs"

text \<open>
  Transports for concrete scenarios. The remote world is the number of requests served;
  a request for a path the scenario does not know is rejected.
\<close>

definition build10 :: VersionBuild where
  "build10 = \<lparr>VersionBuild.build = 10, time = ''2023-06-08T01:00:00.000Z'',
     channel = Channel_default, promoted = False, changes = [], downloads = []\<rparr>"

definition build17 :: VersionBuild where
  "build17 = \<lparr>VersionBuild.build = 17, time = ''2023-06-12T21:30:00.000Z'',
     channel = Channel_default, promoted = True,
     changes = [\<lparr>commit = ''3b6b4b6'', summary = ''Fix a typo'', message = ''Fix a typo''\<rparr>],
     downloads = [(''application'', \<lparr>name = ''paper-1.20-17.jar'', sha256 = ''0a1b2c''\<rparr>)]\<rparr>"

definition paper_project :: "Version list \<Rightarrow> response" where
  "paper_project vs = ProjectData \<lparr>ProjectResponse.project_id = ''paper'', project_name = ''Paper'',
     version_groups = [''1.19'', ''1.20''], versions = vs\<rparr>"

definition paper_builds :: "Version \<Rightarrow> VersionBuild list \<Rightarrow> response" where
  "paper_builds v bs = BuildsData \<lparr>BuildsResponse.project_id = ''paper'', project_name = ''Paper'',
     version = v, builds = bs\<rparr>"

definition paper_projects :: response where
  "paper_projects = ProjectsData \<lparr>projects = [''paper'', ''velocity'', ''waterfall'']\<rparr>"

definition paper_version :: response where
  "paper_version = VersionData \<lparr>VersionResponse.project_id = ''paper'', project_name = ''Paper'',
     version = ''1.20'', builds = [10, 17]\<rparr>"

definition paper_build :: response where
  "paper_build = BuildData \<lparr>BuildResponse.project_id = ''paper'', project_name = ''Paper'',
     version = ''1.20'', build = 17, time = ''2023-06-12T21:30:00.000Z'',
     channel = Channel_default, promoted = True,
     changes = [\<lparr>commit = ''3b6b4b6'', summary = ''Fix a typo'', message = ''Fix a typo''\<rparr>],
     downloads = [(''application'', \<lparr>name = ''paper-1.20-17.jar'', sha256 = ''0a1b2c''\<rparr>)]\<rparr>"

definition paper_family :: response where
  "paper_family = VersionFamilyData \<lparr>VersionFamilyResponse.project_id = ''paper'',
     project_name = ''Paper'', version_group = ''1.20'', versions = [''1.20'', ''1.20.1'']\<rparr>"

definition paper_family_builds :: response where
  "paper_family_builds = VersionFamilyBuildsData
     \<lparr>VersionFamilyBuildsResponse.project_id = ''paper'', project_name = ''Paper'',
      version_group = ''1.20'', versions = [''1.20'', ''1.20.1''],
      builds = [\<lparr>VersionFamilyBuild.version = ''1.20'', build = 17,
        time = ''2023-06-12T21:30:00.000Z'', channel = Channel_experimental, promoted = False,
        changes = [], downloads = []\<rparr>]\<rparr>"

definition http_ok :: "'d \<Rightarrow> 'e js_error + 'd AxiosResponse" where
  "http_ok d = Inr \<lparr>data = d, status = 200\<rparr>"

definition not_found :: "string js_error + 'd AxiosResponse" where
  "not_found = Inl (AxiosError ''Request failed with status code 404'')"

definition mock_paper :: "(nat, string, response) transport" where
  "mock_paper rq n =
     (if req_url rq = ''/projects'' then http_ok paper_projects
      else if req_url rq = ''/projects/paper'' then http_ok (paper_project [''1.19'', ''1.20''])
      else if req_url rq = ''/projects/paper/versions/1.20'' then http_ok paper_version
      else if req_url rq = ''/projects/paper/versions/1.20/builds''
        then http_ok (paper_builds ''1.20'' [build10, build17])
      else if req_url rq = ''/projects/paper/versions/1.20/builds/17'' then http_ok paper_build
      else if req_url rq = ''/projects/paper/version_group/1.20'' then http_ok paper_family
      else if req_url rq = ''/projects/paper/version_group/1.20/builds''
        then http_ok paper_family_builds
      else not_found, Suc n)"

definition mock_no_versions :: "(nat, string, response) transport" where
  "mock_no_versions rq n =
     (if req_url rq = ''/projects/paper'' then http_ok (paper_project [])
      else if req_url rq = ''/projects/paper/versions/undefined/builds''
        then http_ok (paper_builds ''undefined'' [build17])
      else not_found, Suc n)"

definition mock_no_builds :: "(nat, string, response) transport" where
  "mock_no_builds rq n =
     (if req_url rq = ''/projects/paper'' then http_ok (paper_project [''1.19'', ''1.20''])
      else if req_url rq = ''/projects/paper/versions/1.20/builds''
        then http_ok (paper_builds ''1.20'' [])
      else not_found, Suc n)"

definition mock_down :: "(nat, string, response) transport" where
  "mock_down rq n = (Inl (AxiosError ''connect ECONNREFUSED''), Suc n)"

section \<open>Properties\<close>

subsection \<open>One request, its outcome returned as it is\<close>

lemma axios_get_eq:
  "axios_get t path s =
     (fst (t (get_request s path) (remote s)),
      s\<lparr>remote := snd (t (get_request s path) (remote s)),
        sent := sent s @ [get_request s path]\<rparr>)"
  by (simp add: axios_get_def Let_def split: prod.splits)

lemma query_sent:
  "sent (snd (return_data (axios_get t path s))) = sent s @ [get_request s path]"
  by (simp add: axios_get_eq return_data_def split: sum.splits)

lemma query_baseURL: "baseURL (snd (return_data (axios_get t path s))) = baseURL s"
  by (simp add: axios_get_eq return_data_def split: sum.splits)

lemma query_remote:
  "remote (snd (return_data (axios_get t path s))) = snd (t (get_request s path) (remote s))"
  by (simp add: axios_get_eq return_data_def split: sum.splits)

lemma query_rejected:
  assumes "t (get_request s path) (remote s) = (Inl e, w')"
  shows "return_data (axios_get t path s) =
           (Inl e, s\<lparr>remote := w', sent := sent s @ [get_request s path]\<rparr>)"
  using assms by (simp add: axios_get_eq return_data_def)

lemma query_fulfilled:
  assumes "t (get_request s path) (remote s) = (Inr resp, w')"
  shows "return_data (axios_get t path s) =
           (Inr (data resp), s\<lparr>remote := w', sent := sent s @ [get_request s path]\<rparr>)"
  using assms by (simp add: axios_get_eq return_data_def)

lemmas query_defs =
  getProjects_def getProject_def getVersion_def getBuilds_def getBuild_def
  getVersionFamily_def getVersionFamilyBuilds_def

lemma getDownloadURL_eq:
  "getDownloadURL p v b s =
     (baseURL s @ ''/projects/'' @ ToString p @ ''/versions/'' @ ToString v
        @ ''/builds/'' @ ToString b @ ''/downloads/'' @ ToString p @ ''-''
        @ ToString v @ ''-'' @ ToString b @ ''.jar'', s)"
  by (simp add: getDownloadURL_def getUri_def)

text \<open>\<open>digits\<close> is the decimal notation: read back digit by digit, it gives the number.\<close>

lemma digit_code:
  assumes "d < 10"
  shows "of_char (digit d) = (48 + d :: nat)"
proof -
  from assms have "d \<in> {0, 1, 2, 3, 4, 5, 6, 7, 8, 9}" by auto
  then show ?thesis by (auto simp add: digit_def)
qed

lemma digits_decimal:
  "foldl (\<lambda>a c. 10 * a + (of_char c - 48)) 0 (digits n) = n"
proof (induction n rule: digits.induct)
  case (1 n)
  show ?case
  proof (cases "n < 10")
    case True
    then show ?thesis by (subst digits.simps) (simp add: digit_code)
  next
    case False
    then have "foldl (\<lambda>a c. 10 * a + (of_char c - 48)) 0 (digits (n div 10)) = n div 10"
      using 1 by simp
    with False show ?thesis
      by (subst digits.simps) (simp add: digit_code)
  qed
qed

lemma digits_nonempty: "digits n \<noteq> []"
  by (subst digits.simps) simp

lemma NumberToString_nonempty: "NumberToString n \<noteq> []"
  by (simp add: NumberToString_def digits_nonempty)

text \<open>
  \<open>NumberToString\<close> prints the decimal numeral, and the decimal numeral of a number is
  one string only.
\<close>

lemma digit_is_digit: "d < 10 \<Longrightarrow> is_digit (digit d)"
proof -
  assume "d < 10"
  then have "d \<in> {0, 1, 2, 3, 4, 5, 6, 7, 8, 9}" by auto
  then show ?thesis by (auto simp add: digit_def is_digit_def)
qed

lemma digit_zero: "d < 10 \<Longrightarrow> digit d = CHR ''0'' \<Longrightarrow> d = 0"
  using digit_code [of d] by simp

lemma digits_all_digit: "list_all is_digit (digits n)"
proof (induction n rule: digits.induct)
  case (1 n)
  show ?case
  proof (cases "n < 10")
    case True
    then show ?thesis using digit_is_digit [of n] by (subst digits.simps) simp
  next
    case False
    with 1 show ?thesis using digit_is_digit [of "n mod 10"] by (subst digits.simps) simp
  qed
qed

lemma digits_zero: "digits 0 = ''0''"
  by (simp add: digits.simps digit_def)

lemma digits_hd: "hd (digits n) = CHR ''0'' \<Longrightarrow> n = 0"
proof (induction n rule: digits.induct)
  case (1 n)
  show ?case
  proof (cases "n < 10")
    case True
    with "1.prems" show ?thesis
      using digit_zero [of n] by (subst (asm) digits.simps) simp
  next
    case False
    then have "hd (digits n) = hd (digits (n div 10))"
      by (subst digits.simps) (simp add: digits_nonempty)
    with 1 False have "n div 10 = 0" by simp
    with False show ?thesis by simp
  qed
qed

lemma digits_decimal_digits: "decimal_digits n (digits n)"
  using digits_hd [of n]
  by (auto simp add: decimal_digits_def digits_nonempty digits_all_digit digits_decimal digits_zero)

lemma NumberToString_decimal: "decimal_numeral n (NumberToString n)"
  by (simp add: decimal_numeral_def NumberToString_def digits_decimal_digits)


lemma is_digit_code:
  assumes "is_digit c"
  shows "c = digit (of_char c - 48)" and "(of_char c :: nat) - 48 < 10"
  using assms by (auto simp add: is_digit_def digit_def)

lemma decimal_digits_unique: "decimal_digits n ms \<Longrightarrow> ms = digits n"
proof (induction ms arbitrary: n rule: rev_induct)
  case Nil
  then show ?case by (simp add: decimal_digits_def)
next
  case (snoc c xs)
  let ?v = "foldl (\<lambda>a c. 10 * a + (of_char c - 48)) (0::nat) xs"
  let ?d = "of_char c - 48 :: nat"
  from snoc.prems have c: "is_digit c" and xs: "list_all is_digit xs"
    and n: "n = 10 * ?v + ?d"
    and z: "hd (xs @ [c]) = CHR ''0'' \<longrightarrow> xs @ [c] = ''0''"
    by (simp_all add: decimal_digits_def)
  note d = is_digit_code [OF c]
  show ?case
  proof (cases "xs = []")
    case True
    with n d show ?thesis by (subst digits.simps) simp
  next
    case False
    with z have hd: "hd xs \<noteq> CHR ''0''" by auto
    with False xs have "decimal_digits ?v xs" by (simp add: decimal_digits_def)
    then have eq: "xs = digits ?v" by (rule snoc.IH)
    have "?v \<noteq> 0"
    proof
      assume "?v = 0"
      then have "digits ?v = ''0''" by (simp only: digits_zero)
      with eq have "xs = ''0''" by simp
      with hd show False by simp
    qed
    with n d have "\<not> n < 10" and "n div 10 = ?v" and "n mod 10 = ?d" by simp_all
    then have "digits n = digits ?v @ [digit ?d]" by (subst digits.simps) simp
    with eq d show ?thesis by simp
  qed
qed

lemma decimal_numeral_unique: "decimal_numeral n ds \<Longrightarrow> ds = NumberToString n"
proof (cases "n < 0")
  case True
  assume "decimal_numeral n ds"
  with True have "ds \<noteq> []" and "hd ds = CHR ''-''" and "tl ds = digits (nat (- n))"
    by (simp_all add: decimal_numeral_def decimal_digits_unique)
  with True show ?thesis by (cases ds) (simp_all add: NumberToString_def)
next
  case False
  assume "decimal_numeral n ds"
  with False show ?thesis
    by (simp add: decimal_numeral_def NumberToString_def decimal_digits_unique)
qed


lemma index_last_eq: "index_last xs = (if xs = [] then None else Some (last xs))"
  by (simp add: index_last_def last_conv_nth)

lemma last_version_Nil: "last_version [] = JSUndefined"
  by (simp add: last_version_def index_last_def)

lemma last_version_last: "vs \<noteq> [] \<Longrightarrow> last_version vs = JSString (last vs)"
  by (simp add: last_version_def index_last_eq)

lemma last_version_text: "ToString (last_version vs) = (if vs = [] then ''undefined'' else last vs)"
  by (simp add: last_version_Nil last_version_last)

lemma query_eq:
  "return_data (axios_get t path s) =
     (let rq = \<lparr>req_verb = GET, req_baseURL = baseURL s, req_url = path\<rparr>;
          (r, w') = t rq (remote s)
      in ((case r of Inl e \<Rightarrow> Inl e | Inr resp \<Rightarrow> Inr (data resp)),
          s\<lparr>remote := w', sent := sent s @ [rq]\<rparr>))"
  by (simp add: axios_get_def return_data_def get_request_def Let_def
      split: prod.splits sum.splits)

text \<open>
  C2: for every project, version and build number, \<^verbatim>\<open>getDownloadURL\<close> returns the template
  \<^verbatim>\<open>{baseURL}/projects/{project}/versions/{version}/builds/{build}/downloads/{project}-{version}-{build}.jar\<close>
  with the three identifiers substituted as they are: the two strings unchanged and the
  build number, a safe integer, as its decimal numeral \<open>ds\<close>. The base address is
  \<^verbatim>\<open>https://api.papermc.io/v2\<close> for the module's instance; the call sends no request and
  leaves the remote world alone.
\<close>

theorem download_url_template:
  assumes "safe_integer build'" and "decimal_numeral build' ds"
  shows "getDownloadURL (JSString project) (JSString version') (JSNumber build') s =
     (baseURL s @ ''/projects/'' @ project @ ''/versions/'' @ version' @ ''/builds/''
        @ ds @ ''/downloads/'' @ project @ ''-'' @ version' @ ''-'' @ ds @ ''.jar'', s)
   \<and> baseURL (paperAPIInstance w) = ''https://api.papermc.io/v2''
   \<and> sent (snd (getDownloadURL (JSString project) (JSString version') (JSNumber build') s)) = sent s
   \<and> remote (snd (getDownloadURL (JSString project) (JSString version') (JSNumber build') s)) = remote s"
  using decimal_numeral_unique [OF assms(2)]
  by (simp add: getDownloadURL_eq paperAPIInstance_def)

theorem download_url_template_witness:
  "safe_integer 17 \<and> decimal_numeral 17 ''17''
   \<and> getDownloadURL (JSString ''paper'') (JSString ''1.20'') (JSNumber 17) (paperAPIInstance (0::nat)) =
     (''https://api.papermc.io/v2/projects/paper/versions/1.20/builds/17/downloads/paper-1.20-17.jar'',
      \<lparr>baseURL = ''https://api.papermc.io/v2'', remote = 0, sent = []\<rparr>)"
  using download_url_template [where build' = 17 and ds = "''17''" and project = "''paper''"
    and version' = "''1.20''" and s = "paperAPIInstance (0::nat)" and w = "0::nat"]
  by (simp add: safe_integer_def decimal_numeral_def decimal_digits_def is_digit_def
      paperAPIInstance_def)

text \<open>
  C4: each of the seven query operations issues exactly one request, a GET relative to
  the instance's base address whose path is the documented endpoint with the inputs
  substituted (a build number, a safe integer, as its decimal numeral \<open>ds\<close>). The
  transport is applied once, to that request in the caller's remote world: the result is
  its outcome, the remote world is the one it leaves, and the list of requests sent
  grows by that one request.
\<close>

theorem query_one_get_request:
  assumes "safe_integer build'" and "decimal_numeral build' ds"
  shows
  "getProjects t s =
     (let rq = \<lparr>req_verb = GET, req_baseURL = baseURL s, req_url = ''/projects''\<rparr>;
          (r, w') = t rq (remote s)
      in ((case r of Inl e \<Rightarrow> Inl e | Inr resp \<Rightarrow> Inr (data resp)),
          s\<lparr>remote := w', sent := sent s @ [rq]\<rparr>))
   \<and> getProject t (JSString project) s =
     (let rq = \<lparr>req_verb = GET, req_baseURL = baseURL s, req_url = ''/projects/'' @ project\<rparr>;
          (r, w') = t rq (remote s)
      in ((case r of Inl e \<Rightarrow> Inl e | Inr resp \<Rightarrow> Inr (data resp)),
          s\<lparr>remote := w', sent := sent s @ [rq]\<rparr>))
   \<and> getVersion t (JSString project) (JSString version') s =
     (let rq = \<lparr>req_verb = GET, req_baseURL = baseURL s,
                req_url = ''/projects/'' @ project @ ''/versions/'' @ version'\<rparr>;
          (r, w') = t rq (remote s)
      in ((case r of Inl e \<Rightarrow> Inl e | Inr resp \<Rightarrow> Inr (data resp)),
          s\<lparr>remote := w', sent := sent s @ [rq]\<rparr>))
   \<and> getBuilds t (JSString project) (JSString version') s =
     (let rq = \<lparr>req_verb = GET, req_baseURL = baseURL s,
                req_url = ''/projects/'' @ project @ ''/versions/'' @ version' @ ''/builds''\<rparr>;
          (r, w') = t rq (remote s)
      in ((case r of Inl e \<Rightarrow> Inl e | Inr resp \<Rightarrow> Inr (data resp)),
          s\<lparr>remote := w', sent := sent s @ [rq]\<rparr>))
   \<and> getBuild t (JSString project) (JSString version') (JSNumber build') s =
     (let rq = \<lparr>req_verb = GET, req_baseURL = baseURL s,
                req_url = ''/projects/'' @ project @ ''/versions/'' @ version' @ ''/builds/'' @ ds\<rparr>;
          (r, w') = t rq (remote s)
      in ((case r of Inl e \<Rightarrow> Inl e | Inr resp \<Rightarrow> Inr (data resp)),
          s\<lparr>remote := w', sent := sent s @ [rq]\<rparr>))
   \<and> getVersionFamily t (JSString project) (JSString family) s =
     (let rq = \<lparr>req_verb = GET, req_baseURL = baseURL s,
                req_url = ''/projects/'' @ project @ ''/version_group/'' @ family\<rparr>;
          (r, w') = t rq (remote s)
      in ((case r of Inl e \<Rightarrow> Inl e | Inr resp \<Rightarrow> Inr (data resp)),
          s\<lparr>remote := w', sent := sent s @ [rq]\<rparr>))
   \<and> getVersionFamilyBuilds t (JSString project) (JSString family) s =
     (let rq = \<lparr>req_verb = GET, req_baseURL = baseURL s,
                req_url = ''/projects/'' @ project @ ''/version_group/'' @ family @ ''/builds''\<rparr>;
          (r, w') = t rq (remote s)
      in ((case r of Inl e \<Rightarrow> Inl e | Inr resp \<Rightarrow> Inr (data resp)),
          s\<lparr>remote := w', sent := sent s @ [rq]\<rparr>))"
  using decimal_numeral_unique [OF assms(2)]
  by (simp only: query_defs query_eq ToString.simps)

theorem query_one_get_request_witness:
  "safe_integer 17 \<and> decimal_numeral 17 ''17''
   \<and> getBuild mock_paper (JSString ''paper'') (JSString ''1.20'') (JSNumber 17) (paperAPIInstance 0) =
     (Inr paper_build,
      \<lparr>baseURL = ''https://api.papermc.io/v2'', remote = 1,
       sent = [\<lparr>req_verb = GET, req_baseURL = ''https://api.papermc.io/v2'',
                req_url = ''/projects/paper/versions/1.20/builds/17''\<rparr>]\<rparr>)
   \<and> getProjects mock_down (paperAPIInstance 0) =
     (Inl (AxiosError ''connect ECONNREFUSED''),
      \<lparr>baseURL = ''https://api.papermc.io/v2'', remote = 1,
       sent = [\<lparr>req_verb = GET, req_baseURL = ''https://api.papermc.io/v2'',
                req_url = ''/projects''\<rparr>]\<rparr>)"
  using query_one_get_request [where build' = 17 and ds = "''17''" and t = mock_paper
      and s = "paperAPIInstance 0" and project = "''paper''" and version' = "''1.20''"
      and family = "''1.20''"]
    query_one_get_request [where build' = 17 and ds = "''17''" and t = mock_down
      and s = "paperAPIInstance 0" and project = "''paper''" and version' = "''1.20''"
      and family = "''1.20''"]
  by (simp add: safe_integer_def decimal_numeral_def decimal_digits_def is_digit_def
      mock_paper_def mock_down_def paperAPIInstance_def http_ok_def Let_def)

text \<open>
  C5: when the transport rejects the one request of a query operation with an error
  \<open>e\<close>, the operation is rejected with that same \<open>e\<close>. The state it leaves has that one
  request sent and the remote world as the transport left it: nothing is retried, and
  nothing but the error is returned. The statement holds in every state \<open>s\<close>, so also for
  a later identical call: it asks the transport again.
\<close>

theorem transport_rejection_propagates:
  "(t (get_request s ''/projects'') (remote s) = (Inl e, w') \<longrightarrow>
      getProjects t s =
        (Inl e, s\<lparr>remote := w', sent := sent s @ [get_request s ''/projects'']\<rparr>))
   \<and> (t (get_request s (''/projects/'' @ project)) (remote s) = (Inl e, w') \<longrightarrow>
      getProject t (JSString project) s =
        (Inl e, s\<lparr>remote := w', sent := sent s @ [get_request s (''/projects/'' @ project)]\<rparr>))
   \<and> (t (get_request s (''/projects/'' @ project @ ''/versions/'' @ version')) (remote s)
        = (Inl e, w') \<longrightarrow>
      getVersion t (JSString project) (JSString version') s =
        (Inl e, s\<lparr>remote := w', sent := sent s @
           [get_request s (''/projects/'' @ project @ ''/versions/'' @ version')]\<rparr>))
   \<and> (t (get_request s (''/projects/'' @ project @ ''/versions/'' @ version' @ ''/builds''))
          (remote s) = (Inl e, w') \<longrightarrow>
      getBuilds t (JSString project) (JSString version') s =
        (Inl e, s\<lparr>remote := w', sent := sent s @
           [get_request s (''/projects/'' @ project @ ''/versions/'' @ version' @ ''/builds'')]\<rparr>))
   \<and> (t (get_request s (''/projects/'' @ project @ ''/versions/'' @ version' @ ''/builds/''
             @ NumberToString build')) (remote s) = (Inl e, w') \<longrightarrow>
      getBuild t (JSString project) (JSString version') (JSNumber build') s =
        (Inl e, s\<lparr>remote := w', sent := sent s @
           [get_request s (''/projects/'' @ project @ ''/versions/'' @ version' @ ''/builds/''
              @ NumberToString build')]\<rparr>))
   \<and> (t (get_request s (''/projects/'' @ project @ ''/version_group/'' @ family)) (remote s)
        = (Inl e, w') \<longrightarrow>
      getVersionFamily t (JSString project) (JSString family) s =
        (Inl e, s\<lparr>remote := w', sent := sent s @
           [get_request s (''/projects/'' @ project @ ''/version_group/'' @ family)]\<rparr>))
   \<and> (t (get_request s (''/projects/'' @ project @ ''/version_group/'' @ family @ ''/builds''))
          (remote s) = (Inl e, w') \<longrightarrow>
      getVersionFamilyBuilds t (JSString project) (JSString family) s =
        (Inl e, s\<lparr>remote := w', sent := sent s @
           [get_request s (''/projects/'' @ project @ ''/version_group/'' @ family @ ''/builds'')]\<rparr>))"
  by (simp add: query_defs query_rejected)

theorem transport_rejection_propagates_witness:
  "getProjects mock_down (paperAPIInstance 0) =
     (Inl (AxiosError ''connect ECONNREFUSED''),
      \<lparr>baseURL = ''https://api.papermc.io/v2'', remote = 1,
       sent = [\<lparr>req_verb = GET, req_baseURL = ''https://api.papermc.io/v2'',
                req_url = ''/projects''\<rparr>]\<rparr>)
   \<and> fst (getProject mock_down (JSString ''paper'') (paperAPIInstance 0)) =
       Inl (AxiosError ''connect ECONNREFUSED'')
   \<and> fst (getVersion mock_down (JSString ''paper'') (JSString ''1.20'') (paperAPIInstance 0)) =
       Inl (AxiosError ''connect ECONNREFUSED'')
   \<and> fst (getBuilds mock_down (JSString ''paper'') (JSString ''1.20'') (paperAPIInstance 0)) =
       Inl (AxiosError ''connect ECONNREFUSED'')
   \<and> fst (getBuild mock_down (JSString ''paper'') (JSString ''1.20'') (JSNumber 17)
         (paperAPIInstance 0)) = Inl (AxiosError ''connect ECONNREFUSED'')
   \<and> fst (getVersionFamily mock_down (JSString ''paper'') (JSString ''1.20'') (paperAPIInstance 0)) =
       Inl (AxiosError ''connect ECONNREFUSED'')
   \<and> fst (getVersionFamilyBuilds mock_down (JSString ''paper'') (JSString ''1.20'')
         (paperAPIInstance 0)) = Inl (AxiosError ''connect ECONNREFUSED'')"
  using transport_rejection_propagates [where t = mock_down and s = "paperAPIInstance 0"
    and e = "AxiosError ''connect ECONNREFUSED''" and w' = 1 and project = "''paper''"
    and version' = "''1.20''" and build' = 17 and family = "''1.20''"]
  by (simp add: mock_down_def paperAPIInstance_def get_request_def)

text \<open>
  C6: when the transport answers the one request of a query operation with a response,
  the operation returns that response's decoded body \<open>data resp\<close> itself, whatever the
  body is: no field is added, dropped or defaulted by the client. (Decoding the JSON text
  into the body is the transport's work.)
\<close>

theorem body_returned_verbatim:
  "(t (get_request s ''/projects'') (remote s) = (Inr resp, w') \<longrightarrow>
      getProjects t s =
        (Inr (data resp), s\<lparr>remote := w', sent := sent s @ [get_request s ''/projects'']\<rparr>))
   \<and> (t (get_request s (''/projects/'' @ project)) (remote s) = (Inr resp, w') \<longrightarrow>
      getProject t (JSString project) s =
        (Inr (data resp),
         s\<lparr>remote := w', sent := sent s @ [get_request s (''/projects/'' @ project)]\<rparr>))
   \<and> (t (get_request s (''/projects/'' @ project @ ''/versions/'' @ version')) (remote s)
        = (Inr resp, w') \<longrightarrow>
      getVersion t (JSString project) (JSString version') s =
        (Inr (data resp), s\<lparr>remote := w', sent := sent s @
           [get_request s (''/projects/'' @ project @ ''/versions/'' @ version')]\<rparr>))
   \<and> (t (get_request s (''/projects/'' @ project @ ''/versions/'' @ version' @ ''/builds''))
          (remote s) = (Inr resp, w') \<longrightarrow>
      getBuilds t (JSString project) (JSString version') s =
        (Inr (data resp), s\<lparr>remote := w', sent := sent s @
           [get_request s (''/projects/'' @ project @ ''/versions/'' @ version' @ ''/builds'')]\<rparr>))
   \<and> (t (get_request s (''/projects/'' @ project @ ''/versions/'' @ version' @ ''/builds/''
             @ NumberToString build')) (remote s) = (Inr resp, w') \<longrightarrow>
      getBuild t (JSString project) (JSString version') (JSNumber build') s =
        (Inr (data resp), s\<lparr>remote := w', sent := sent s @
           [get_request s (''/projects/'' @ project @ ''/versions/'' @ version' @ ''/builds/''
              @ NumberToString build')]\<rparr>))
   \<and> (t (get_request s (''/projects/'' @ project @ ''/version_group/'' @ family)) (remote s)
        = (Inr resp, w') \<longrightarrow>
      getVersionFamily t (JSString project) (JSString family) s =
        (Inr (data resp), s\<lparr>remote := w', sent := sent s @
           [get_request s (''/projects/'' @ project @ ''/version_group/'' @ family)]\<rparr>))
   \<and> (t (get_request s (''/projects/'' @ project @ ''/version_group/'' @ family @ ''/builds''))
          (remote s) = (Inr resp, w') \<longrightarrow>
      getVersionFamilyBuilds t (JSString project) (JSString family) s =
        (Inr (data resp), s\<lparr>remote := w', sent := sent s @
           [get_request s (''/projects/'' @ project @ ''/version_group/'' @ family @ ''/builds'')]\<rparr>))"
  by (simp add: query_defs query_fulfilled)

theorem body_returned_verbatim_witness:
  "fst (getProjects mock_paper (paperAPIInstance 0)) = Inr paper_projects
   \<and> fst (getProject mock_paper (JSString ''paper'') (paperAPIInstance 0)) =
       Inr (paper_project [''1.19'', ''1.20''])
   \<and> fst (getVersion mock_paper (JSString ''paper'') (JSString ''1.20'') (paperAPIInstance 0)) =
       Inr paper_version
   \<and> fst (getBuilds mock_paper (JSString ''paper'') (JSString ''1.20'') (paperAPIInstance 0)) =
       Inr (paper_builds ''1.20'' [build10, build17])
   \<and> fst (getBuild mock_paper (JSString ''paper'') (JSString ''1.20'') (JSNumber 17)
         (paperAPIInstance 0)) = Inr paper_build
   \<and> fst (getVersionFamily mock_paper (JSString ''paper'') (JSString ''1.20'') (paperAPIInstance 0)) =
       Inr paper_family
   \<and> fst (getVersionFamilyBuilds mock_paper (JSString ''paper'') (JSString ''1.20'')
         (paperAPIInstance 0)) = Inr paper_family_builds"
  using body_returned_verbatim [where t = mock_paper and s = "paperAPIInstance 0" and w' = 1
      and project = "''paper''" and version' = "''1.20''" and build' = 17 and family = "''1.20''"
      and resp = "\<lparr>data = paper_projects, status = 200\<rparr>"]
    body_returned_verbatim [where t = mock_paper and s = "paperAPIInstance 0" and w' = 1
      and project = "''paper''" and version' = "''1.20''" and build' = 17 and family = "''1.20''"
      and resp = "\<lparr>data = paper_project [''1.19'', ''1.20''], status = 200\<rparr>"]
    body_returned_verbatim [where t = mock_paper and s = "paperAPIInstance 0" and w' = 1
      and project = "''paper''" and version' = "''1.20''" and build' = 17 and family = "''1.20''"
      and resp = "\<lparr>data = paper_version, status = 200\<rparr>"]
    body_returned_verbatim [where t = mock_paper and s = "paperAPIInstance 0" and w' = 1
      and project = "''paper''" and version' = "''1.20''" and build' = 17 and family = "''1.20''"
      and resp = "\<lparr>data = paper_builds ''1.20'' [build10, build17], status = 200\<rparr>"]
    body_returned_verbatim [where t = mock_paper and s = "paperAPIInstance 0" and w' = 1
      and project = "''paper''" and version' = "''1.20''" and build' = 17 and family = "''1.20''"
      and resp = "\<lparr>data = paper_build, status = 200\<rparr>"]
    body_returned_verbatim [where t = mock_paper and s = "paperAPIInstance 0" and w' = 1
      and project = "''paper''" and version' = "''1.20''" and build' = 17 and family = "''1.20''"
      and resp = "\<lparr>data = paper_family, status = 200\<rparr>"]
    body_returned_verbatim [where t = mock_paper and s = "paperAPIInstance 0" and w' = 1
      and project = "''paper''" and version' = "''1.20''" and build' = 17 and family = "''1.20''"
      and resp = "\<lparr>data = paper_family_builds, status = 200\<rparr>"]
  by (simp add: mock_paper_def paperAPIInstance_def get_request_def http_ok_def
      NumberToString_def digits.simps digit_def)

text \<open>
  C7: \<^verbatim>\<open>getDownloadURL\<close> returns a string for every input and never fails: for every
  project, version and build value (a string, also the empty one, any integral number,
  also a negative one, or \<^verbatim>\<open>undefined\<close>) it yields a non-empty string and leaves the state
  as it was. Every number prints as a non-empty string.
\<close>

theorem download_url_never_fails:
  "(\<exists>u. getDownloadURL project version' build' s = (u, s) \<and> u \<noteq> [])
   \<and> NumberToString n \<noteq> []
   \<and> getDownloadURL (JSString []) (JSString []) (JSNumber 0) s =
       (baseURL s @ ''/projects//versions//builds/0/downloads/--0.jar'', s)
   \<and> getDownloadURL (JSString []) (JSString []) (JSNumber (- 1)) s =
       (baseURL s @ ''/projects//versions//builds/-1/downloads/---1.jar'', s)
   \<and> getDownloadURL JSUndefined JSUndefined JSUndefined s =
       (baseURL s @ ''/projects/undefined/versions/undefined/builds/undefined/downloads/undefined-undefined-undefined.jar'', s)"
proof -
  have "NumberToString 0 = ''0''" and "NumberToString (- 1) = ''-1''"
    by (simp_all add: NumberToString_def digits.simps digit_def)
  then show ?thesis
    by (simp add: getDownloadURL_eq NumberToString_nonempty)
qed

theorem download_url_never_fails_witness:
  "getDownloadURL (JSString []) (JSString []) (JSNumber (- 1)) (paperAPIInstance (0::nat)) =
     (''https://api.papermc.io/v2/projects//versions//builds/-1/downloads/---1.jar'',
      paperAPIInstance 0)"
  using download_url_never_fails [of "JSString []" "JSString []" "JSNumber 0" "paperAPIInstance (0::nat)" 0]
  by (simp add: paperAPIInstance_def)

subsection \<open>The latest build's download URL\<close>

lemma latest_empty_builds:
  "getProject t p s = (Inr d1, s1) \<Longrightarrow> prop_versions d1 = Some vs \<Longrightarrow>
   getBuilds t p (last_version vs) s1 = (Inr d2, s2) \<Longrightarrow> prop_builds d2 = Some [] \<Longrightarrow>
     getLatestVersionDownloadURL t p s = (Inl TypeError, s2)"
  by (simp add: getLatestVersionDownloadURL_def index_last_def)

lemma latest_url:
  "getProject t p s = (Inr d1, s1) \<Longrightarrow> prop_versions d1 = Some vs \<Longrightarrow>
   getBuilds t p (last_version vs) s1 = (Inr d2, s2) \<Longrightarrow> prop_builds d2 = Some bs \<Longrightarrow>
   bs \<noteq> [] \<Longrightarrow>
     getLatestVersionDownloadURL t p s =
       (Inr (fst (getDownloadURL p (last_version vs) (prop_build (last bs)) s2)), s2)"
  by (simp add: getLatestVersionDownloadURL_def index_last_eq getDownloadURL_eq)

lemma getProject_baseURL: "getProject t p s = (r, s1) \<Longrightarrow> baseURL s1 = baseURL s"
  using query_baseURL [of t "''/projects/'' @ ToString p" s] by (simp add: getProject_def)

lemma getBuilds_baseURL: "getBuilds t p v s = (r, s1) \<Longrightarrow> baseURL s1 = baseURL s"
  using query_baseURL [of t "''/projects/'' @ ToString p @ ''/versions/'' @ ToString v @ ''/builds''" s]
  by (simp add: getBuilds_def)

lemma getDownloadURL_baseURL_only:
  "baseURL s' = baseURL s \<Longrightarrow> fst (getDownloadURL p v b s') = fst (getDownloadURL p v b s)"
  by (simp add: getDownloadURL_eq)

lemma latest_state:
  "snd (getLatestVersionDownloadURL t p s) =
     (case getProject t p s of
        (Inl e, s1) \<Rightarrow> s1
      | (Inr d, s1) \<Rightarrow>
          (case prop_versions d of
             None \<Rightarrow> s1
           | Some vs \<Rightarrow> snd (getBuilds t p (last_version vs) s1)))"
  by (simp add: getLatestVersionDownloadURL_def getDownloadURL_eq
      split: prod.splits sum.splits option.splits)

lemma getProject_sent:
  "sent (snd (getProject t p s)) = sent s @ [get_request s (''/projects/'' @ ToString p)]"
  by (simp add: getProject_def query_sent)

lemma getBuilds_after_getProject:
  assumes "getProject t p s = (r, s1)"
  shows "sent (snd (getBuilds t p v s1)) =
           sent s @ [get_request s (''/projects/'' @ ToString p),
                     get_request s (''/projects/'' @ ToString p @ ''/versions/'' @ ToString v
                       @ ''/builds'')]"
    and "remote (snd (getBuilds t p v s1)) =
           snd (t (get_request s (''/projects/'' @ ToString p @ ''/versions/'' @ ToString v
                     @ ''/builds'')) (remote s1))"
proof -
  have base: "get_request s1 x = get_request s x" for x
    using getProject_baseURL [OF assms] by (simp add: get_request_def)
  have "sent s1 = sent s @ [get_request s (''/projects/'' @ ToString p)]"
    using getProject_sent [of t p s] assms by simp
  then show "sent (snd (getBuilds t p v s1)) =
           sent s @ [get_request s (''/projects/'' @ ToString p),
                     get_request s (''/projects/'' @ ToString p @ ''/versions/'' @ ToString v
                       @ ''/builds'')]"
    by (simp add: getBuilds_def query_sent base)
  show "remote (snd (getBuilds t p v s1)) =
           snd (t (get_request s (''/projects/'' @ ToString p @ ''/versions/'' @ ToString v
                     @ ''/builds'')) (remote s1))"
    by (simp add: getBuilds_def query_remote base)
qed

lemma latest_sent:
  "sent (snd (getLatestVersionDownloadURL t p s)) =
     (case getProject t p s of
        (Inl e, s1) \<Rightarrow> sent s @ [get_request s (''/projects/'' @ ToString p)]
      | (Inr d, s1) \<Rightarrow>
          (case prop_versions d of
             None \<Rightarrow> sent s @ [get_request s (''/projects/'' @ ToString p)]
           | Some vs \<Rightarrow>
               sent s @ [get_request s (''/projects/'' @ ToString p),
                         get_request s (''/projects/'' @ ToString p @ ''/versions/''
                           @ ToString (last_version vs) @ ''/builds'')]))"
proof (cases "getProject t p s")
  case (Pair r s1)
  have "sent s1 = sent s @ [get_request s (''/projects/'' @ ToString p)]"
    using getProject_sent [of t p s] Pair by simp
  then show ?thesis
    using Pair getBuilds_after_getProject(1) [OF Pair]
    by (simp add: latest_state split: sum.splits option.splits)
qed

lemma latest_remote:
  "remote (snd (getLatestVersionDownloadURL t p s)) =
     (case getProject t p s of
        (Inl e, s1) \<Rightarrow> remote s1
      | (Inr d, s1) \<Rightarrow>
          (case prop_versions d of
             None \<Rightarrow> remote s1
           | Some vs \<Rightarrow>
               snd (t (get_request s (''/projects/'' @ ToString p @ ''/versions/''
                         @ ToString (last_version vs) @ ''/builds'')) (remote s1))))"
proof (cases "getProject t p s")
  case (Pair r s1)
  then show ?thesis
    using getBuilds_after_getProject(2) [OF Pair]
    by (simp add: latest_state split: sum.splits option.splits)
qed

lemma latest_baseURL: "baseURL (snd (getLatestVersionDownloadURL t p s)) = baseURL s"
proof (cases "getProject t p s")
  case (Pair r s1)
  have "baseURL (snd (getBuilds t p v s1)) = baseURL s" for v
    using getBuilds_baseURL [of t p v s1] getProject_baseURL [OF Pair]
    by (cases "getBuilds t p v s1") simp
  then show ?thesis
    using Pair getProject_baseURL [OF Pair]
    by (simp add: latest_state split: sum.splits option.splits)
qed

lemma after_call_baseURL: "baseURL (after_call t s c) = baseURL s"
  by (cases c) (simp_all add: query_defs query_baseURL latest_baseURL getDownloadURL_eq)

lemma after_calls_baseURL: "baseURL (after_calls t s cs) = baseURL s"
  unfolding after_calls_def
  by (induction cs arbitrary: s) (simp_all add: after_call_baseURL)

text \<open>
  C1: if \<^verbatim>\<open>getProject(p)\<close> returns a response whose \<^verbatim>\<open>versions\<close> list ends with
  \<open>lastVersion\<close>, and \<^verbatim>\<open>getBuilds(p, lastVersion)\<close>, called next, returns a response whose
  \<^verbatim>\<open>builds\<close> list ends with a record of build number \<open>lastBuild\<close>, then
  \<^verbatim>\<open>getLatestVersionDownloadURL(p)\<close> returns exactly the string that
  \<^verbatim>\<open>getDownloadURL(p, lastVersion, lastBuild)\<close> returns. The witness is the spec's scenario:
  versions \<^verbatim>\<open>["1.19", "1.20"]\<close>, builds 10 and 17.
\<close>

theorem latest_is_download_url_of_last:
  assumes "getProject t project s = (Inr (ProjectData r1), s1)"
    and "ProjectResponse.versions r1 \<noteq> []"
    and "last (ProjectResponse.versions r1) = lastVersion"
    and "getBuilds t project (JSString lastVersion) s1 = (Inr (BuildsData r2), s2)"
    and "BuildsResponse.builds r2 \<noteq> []"
    and "VersionBuild.build (last (BuildsResponse.builds r2)) = lastBuild"
  shows "getLatestVersionDownloadURL t project s =
           (Inr (fst (getDownloadURL project (JSString lastVersion) (JSNumber lastBuild) s)), s2)"
proof -
  let ?vs = "ProjectResponse.versions r1" and ?bs = "map BuildRecord (BuildsResponse.builds r2)"
  have v: "last_version ?vs = JSString lastVersion"
    using assms(2,3) by (simp add: last_version_last)
  have b: "prop_build (last ?bs) = JSNumber lastBuild"
    using assms(5,6) by (simp add: last_map)
  have "getLatestVersionDownloadURL t project s =
          (Inr (fst (getDownloadURL project (last_version ?vs) (prop_build (last ?bs)) s2)), s2)"
    using assms(1,4,5) v
    by (intro latest_url [where ?d1.0 = "ProjectData r1" and ?d2.0 = "BuildsData r2"
          and ?s1.0 = s1]) simp_all
  moreover have "baseURL s2 = baseURL s"
    using getProject_baseURL [OF assms(1)] getBuilds_baseURL [OF assms(4)] by simp
  ultimately show ?thesis
    using v b getDownloadURL_baseURL_only [of s2 s] by simp
qed

theorem latest_is_download_url_of_last_witness:
  "getLatestVersionDownloadURL mock_paper (JSString ''paper'') (paperAPIInstance 0) =
     (Inr ''https://api.papermc.io/v2/projects/paper/versions/1.20/builds/17/downloads/paper-1.20-17.jar'',
      \<lparr>baseURL = ''https://api.papermc.io/v2'', remote = 2,
       sent = [get_request (paperAPIInstance 0) ''/projects/paper'',
               get_request (paperAPIInstance 0) ''/projects/paper/versions/1.20/builds'']\<rparr>)"
  using latest_is_download_url_of_last [where t = mock_paper and project = "JSString ''paper''"
    and s = "paperAPIInstance 0"
    and ?r1.0 = "\<lparr>ProjectResponse.project_id = ''paper'', project_name = ''Paper'',
       version_groups = [''1.19'', ''1.20''], versions = [''1.19'', ''1.20'']\<rparr>"
    and ?s1.0 = "\<lparr>baseURL = ''https://api.papermc.io/v2'', remote = 1,
       sent = [get_request (paperAPIInstance 0) ''/projects/paper'']\<rparr>"
    and lastVersion = "''1.20''"
    and ?r2.0 = "\<lparr>BuildsResponse.project_id = ''paper'', project_name = ''Paper'',
       version = ''1.20'', builds = [build10, build17]\<rparr>"
    and ?s2.0 = "\<lparr>baseURL = ''https://api.papermc.io/v2'', remote = 2,
       sent = [get_request (paperAPIInstance 0) ''/projects/paper'',
               get_request (paperAPIInstance 0) ''/projects/paper/versions/1.20/builds'']\<rparr>"
    and lastBuild = 17]
  by (simp add: getProject_def getBuilds_def axios_get_eq return_data_def mock_paper_def
      paperAPIInstance_def get_request_def http_ok_def paper_project_def paper_builds_def
      build10_def build17_def getDownloadURL_eq NumberToString_def digits.simps digit_def)

text \<open>
  C3, as stated, fails on the code: an empty \<^verbatim>\<open>versions\<close> array throws nothing. With the
  transport \<open>mock_no_versions\<close>, \<^verbatim>\<open>getProject("paper")\<close> returns \<^verbatim>\<open>versions: []\<close>, the
  resolved version is \<^verbatim>\<open>undefined\<close>, the builds of \<^verbatim>\<open>/projects/paper/versions/undefined/builds\<close>
  are requested, and \<^verbatim>\<open>getLatestVersionDownloadURL("paper")\<close> returns a URL.
\<close>

theorem empty_versions_counterexample:
  "fst (getProject mock_no_versions (JSString ''paper'') (paperAPIInstance 0)) =
     Inr (ProjectData \<lparr>ProjectResponse.project_id = ''paper'', project_name = ''Paper'',
       version_groups = [''1.19'', ''1.20''], versions = []\<rparr>)
   \<and> fst (getLatestVersionDownloadURL mock_no_versions (JSString ''paper'') (paperAPIInstance 0)) =
     Inr ''https://api.papermc.io/v2/projects/paper/versions/undefined/builds/17/downloads/paper-undefined-17.jar''"
  by (simp add: getLatestVersionDownloadURL_def getProject_def getBuilds_def axios_get_eq
      return_data_def mock_no_versions_def paperAPIInstance_def get_request_def http_ok_def
      paper_project_def paper_builds_def build17_def getDownloadURL_eq last_version_def
      index_last_def NumberToString_def digits.simps digit_def)

text \<open>
  C3, amended: \<^verbatim>\<open>getLatestVersionDownloadURL(p)\<close> fails, with a \<^verbatim>\<open>TypeError\<close>, when the
  build list fetched for the resolved last version is an empty sequence. The resolved
  version is the last element of \<^verbatim>\<open>getProject(p).versions\<close>, and \<^verbatim>\<open>undefined\<close> when that
  list is empty; an empty \<^verbatim>\<open>versions\<close> list alone does not make the call fail.
\<close>

theorem empty_builds_fail:
  assumes "getProject t project s = (Inr d1, s1)"
    and "prop_versions d1 = Some vs"
    and "getBuilds t project (last_version vs) s1 = (Inr d2, s2)"
    and "prop_builds d2 = Some []"
  shows "getLatestVersionDownloadURL t project s = (Inl TypeError, s2)
         \<and> last_version vs = (if vs = [] then JSUndefined else JSString (last vs))"
  using assms by (simp add: latest_empty_builds last_version_Nil last_version_last)

theorem empty_builds_fail_witness:
  "getLatestVersionDownloadURL mock_no_builds (JSString ''paper'') (paperAPIInstance 0) =
     (Inl TypeError,
      \<lparr>baseURL = ''https://api.papermc.io/v2'', remote = 2,
       sent = [get_request (paperAPIInstance 0) ''/projects/paper'',
               get_request (paperAPIInstance 0) ''/projects/paper/versions/1.20/builds'']\<rparr>)"
  using empty_builds_fail [where t = mock_no_builds and project = "JSString ''paper''"
    and s = "paperAPIInstance 0"
    and ?d1.0 = "paper_project [''1.19'', ''1.20'']"
    and ?s1.0 = "\<lparr>baseURL = ''https://api.papermc.io/v2'', remote = 1,
       sent = [get_request (paperAPIInstance 0) ''/projects/paper'']\<rparr>"
    and vs = "[''1.19'', ''1.20'']"
    and ?d2.0 = "paper_builds ''1.20'' []"
    and ?s2.0 = "\<lparr>baseURL = ''https://api.papermc.io/v2'', remote = 2,
       sent = [get_request (paperAPIInstance 0) ''/projects/paper'',
               get_request (paperAPIInstance 0) ''/projects/paper/versions/1.20/builds'']\<rparr>"]
  by (simp add: getProject_def getBuilds_def axios_get_eq return_data_def mock_no_builds_def
      paperAPIInstance_def get_request_def http_ok_def paper_project_def paper_builds_def
      last_version_def index_last_def)

text \<open>
  C8: \<^verbatim>\<open>getLatestVersionDownloadURL\<close> makes its requests in a fixed dependent order. The
  first request is that of \<^verbatim>\<open>getProject(p)\<close>, answered in the caller's remote world. A
  \<^verbatim>\<open>getBuilds\<close> request follows only when \<^verbatim>\<open>getProject\<close> was fulfilled with a body that has
  \<^verbatim>\<open>versions\<close>; its version is the last element of that list (the text \<^verbatim>\<open>undefined\<close> when
  the list is empty), and the transport answers it in the remote world the first request
  left. No other request is sent. The last conjunct spells this out for a project id
  that is a string and a body of the shape \<^verbatim>\<open>ProjectResponse\<close>.
\<close>

theorem latest_requests_in_order:
  "remote (snd (getProject t p s)) = snd (t (get_request s (''/projects/'' @ ToString p)) (remote s))
   \<and> sent (snd (getLatestVersionDownloadURL t p s)) =
     (case getProject t p s of
        (Inl e, s1) \<Rightarrow> sent s @ [get_request s (''/projects/'' @ ToString p)]
      | (Inr d, s1) \<Rightarrow>
          (case prop_versions d of
             None \<Rightarrow> sent s @ [get_request s (''/projects/'' @ ToString p)]
           | Some vs \<Rightarrow>
               sent s @ [get_request s (''/projects/'' @ ToString p),
                         get_request s (''/projects/'' @ ToString p @ ''/versions/''
                           @ (if vs = [] then ''undefined'' else last vs) @ ''/builds'')]))
   \<and> remote (snd (getLatestVersionDownloadURL t p s)) =
     (case getProject t p s of
        (Inl e, s1) \<Rightarrow> remote s1
      | (Inr d, s1) \<Rightarrow>
          (case prop_versions d of
             None \<Rightarrow> remote s1
           | Some vs \<Rightarrow>
               snd (t (get_request s (''/projects/'' @ ToString p @ ''/versions/''
                         @ (if vs = [] then ''undefined'' else last vs) @ ''/builds''))
                      (remote s1))))
   \<and> (\<forall>r s1. getProject t (JSString project) s = (Inr (ProjectData r), s1) \<longrightarrow>
        sent (snd (getLatestVersionDownloadURL t (JSString project) s)) =
          sent s @ [\<lparr>req_verb = GET, req_baseURL = baseURL s, req_url = ''/projects/'' @ project\<rparr>,
                    \<lparr>req_verb = GET, req_baseURL = baseURL s,
                     req_url = ''/projects/'' @ project @ ''/versions/''
                       @ (if ProjectResponse.versions r = [] then ''undefined''
                          else last (ProjectResponse.versions r)) @ ''/builds''\<rparr>]
        \<and> remote (snd (getLatestVersionDownloadURL t (JSString project) s)) =
          snd (t \<lparr>req_verb = GET, req_baseURL = baseURL s,
                  req_url = ''/projects/'' @ project @ ''/versions/''
                    @ (if ProjectResponse.versions r = [] then ''undefined''
                       else last (ProjectResponse.versions r)) @ ''/builds''\<rparr> (remote s1)))"
proof -
  have "sent (snd (getLatestVersionDownloadURL t (JSString project) s)) =
          sent s @ [\<lparr>req_verb = GET, req_baseURL = baseURL s, req_url = ''/projects/'' @ project\<rparr>,
                    \<lparr>req_verb = GET, req_baseURL = baseURL s,
                     req_url = ''/projects/'' @ project @ ''/versions/''
                       @ (if ProjectResponse.versions r = [] then ''undefined''
                          else last (ProjectResponse.versions r)) @ ''/builds''\<rparr>]
        \<and> remote (snd (getLatestVersionDownloadURL t (JSString project) s)) =
          snd (t \<lparr>req_verb = GET, req_baseURL = baseURL s,
                  req_url = ''/projects/'' @ project @ ''/versions/''
                    @ (if ProjectResponse.versions r = [] then ''undefined''
                       else last (ProjectResponse.versions r)) @ ''/builds''\<rparr> (remote s1))"
    if "getProject t (JSString project) s = (Inr (ProjectData r), s1)" for r s1
    using that latest_sent [of t "JSString project" s] latest_remote [of t "JSString project" s]
    by (simp add: last_version_text get_request_def)
  moreover have "remote (snd (getProject t p s)) =
      snd (t (get_request s (''/projects/'' @ ToString p)) (remote s))"
    by (simp add: getProject_def query_remote)
  ultimately show ?thesis
    using latest_sent [of t p s] latest_remote [of t p s]
    by (simp add: last_version_text split: prod.splits sum.splits option.splits)
qed

theorem latest_requests_in_order_witness:
  "sent (snd (getLatestVersionDownloadURL mock_paper (JSString ''paper'') (paperAPIInstance 0))) =
     [\<lparr>req_verb = GET, req_baseURL = ''https://api.papermc.io/v2'', req_url = ''/projects/paper''\<rparr>,
      \<lparr>req_verb = GET, req_baseURL = ''https://api.papermc.io/v2'',
       req_url = ''/projects/paper/versions/1.20/builds''\<rparr>]
   \<and> sent (snd (getLatestVersionDownloadURL mock_no_versions (JSString ''paper'') (paperAPIInstance 0))) =
     [\<lparr>req_verb = GET, req_baseURL = ''https://api.papermc.io/v2'', req_url = ''/projects/paper''\<rparr>,
      \<lparr>req_verb = GET, req_baseURL = ''https://api.papermc.io/v2'',
       req_url = ''/projects/paper/versions/undefined/builds''\<rparr>]
   \<and> sent (snd (getLatestVersionDownloadURL mock_down (JSString ''paper'') (paperAPIInstance 0))) =
     [\<lparr>req_verb = GET, req_baseURL = ''https://api.papermc.io/v2'', req_url = ''/projects/paper''\<rparr>]"
  using latest_requests_in_order [of mock_paper "JSString ''paper''" "paperAPIInstance 0" "''paper''"]
    latest_requests_in_order [of mock_no_versions "JSString ''paper''" "paperAPIInstance 0" "''paper''"]
    latest_requests_in_order [of mock_down "JSString ''paper''" "paperAPIInstance 0" "''paper''"]
  by (simp add: getProject_def axios_get_eq return_data_def mock_paper_def mock_down_def
      mock_no_versions_def paperAPIInstance_def get_request_def http_ok_def paper_project_def)

text \<open>
  C9: \<^verbatim>\<open>getDownloadURL\<close> is deterministic. It leaves the state as it was, so a second
  invocation returns the same string. The only state its result depends on is the base
  address: the remote world and the requests sent do not matter. No sequence of calls of
  the class's methods, whatever the transport answers, changes the base address, which
  stays the one fixed when the module was loaded: after any such sequence
  \<^verbatim>\<open>getDownloadURL\<close> returns the string it returned before.
\<close>

theorem download_url_deterministic:
  "getDownloadURL project version' build' (snd (getDownloadURL project version' build' s)) =
     getDownloadURL project version' build' s
   \<and> fst (getDownloadURL project version' build' (s\<lparr>remote := w, sent := rs\<rparr>)) =
       fst (getDownloadURL project version' build' s)
   \<and> baseURL (after_calls t s cs) = baseURL s
   \<and> baseURL (after_calls t (paperAPIInstance w) cs) = ''https://api.papermc.io/v2''
   \<and> fst (getDownloadURL project version' build' (after_calls t s cs)) =
       fst (getDownloadURL project version' build' s)"
  by (simp add: getDownloadURL_eq after_calls_baseURL paperAPIInstance_def)

theorem download_url_deterministic_witness:
  "fst (getDownloadURL (JSString ''paper'') (JSString ''1.20'') (JSNumber 17)
     (after_calls mock_paper (paperAPIInstance 0)
        [CallGetProjects, CallGetLatestVersionDownloadURL (JSString ''paper''),
         CallGetDownloadURL (JSString ''x'') (JSString ''y'') (JSNumber 1)])) =
   ''https://api.papermc.io/v2/projects/paper/versions/1.20/builds/17/downloads/paper-1.20-17.jar''"
  using download_url_deterministic [where project = "JSString ''paper''"
    and version' = "JSString ''1.20''" and build' = "JSNumber 17" and s = "paperAPIInstance 0"
    and t = mock_paper and w = 0 and rs = "[]"
    and cs = "[CallGetProjects, CallGetLatestVersionDownloadURL (JSString ''paper''),
      CallGetDownloadURL (JSString ''x'') (JSString ''y'') (JSNumber 1)]"]
  by (simp add: getDownloadURL_eq paperAPIInstance_def NumberToString_def digits.simps digit_def)

text \<open>
  C10: identifiers are put into request paths and download URLs as they are, with no
  escaping, encoding or validation, so an identifier that contains \<^verbatim>\<open>/\<close> changes the
  endpoint: a project id \<^verbatim>\<open>p/versions/v\<close> makes \<^verbatim>\<open>getProject\<close> the very call
  \<^verbatim>\<open>getVersion(p, v)\<close>, and so on for the other operations; \<^verbatim>\<open>getDownloadURL\<close> and the
  first request of \<^verbatim>\<open>getLatestVersionDownloadURL\<close> carry the identifier unchanged too.
\<close>

theorem identifiers_not_escaped:
  "getProject t (JSString (project @ ''/versions/'' @ version')) s =
     getVersion t (JSString project) (JSString version') s
   \<and> getVersion t (JSString project) (JSString (version' @ ''/builds'')) s =
     getBuilds t (JSString project) (JSString version') s
   \<and> getVersion t (JSString project) (JSString (version' @ ''/builds/'' @ NumberToString build')) s =
     getBuild t (JSString project) (JSString version') (JSNumber build') s
   \<and> getBuilds t (JSString project) (JSString (version' @ ''/builds/'' @ x)) s =
     getBuild t (JSString project) (JSString version') (JSString (x @ ''/builds'')) s
   \<and> getProject t (JSString (project @ ''/version_group/'' @ family)) s =
     getVersionFamily t (JSString project) (JSString family) s
   \<and> getVersionFamily t (JSString project) (JSString (family @ ''/builds'')) s =
     getVersionFamilyBuilds t (JSString project) (JSString family) s
   \<and> getVersionFamilyBuilds t (JSString (project @ ''/version_group/'' @ x)) (JSString family) s =
     getVersionFamilyBuilds t (JSString project) (JSString (x @ ''/version_group/'' @ family)) s
   \<and> fst (getDownloadURL (JSString (project @ ''/'' @ x)) (JSString version') (JSNumber build') s) =
     baseURL s @ ''/projects/'' @ project @ ''/'' @ x @ ''/versions/'' @ version' @ ''/builds/''
       @ NumberToString build' @ ''/downloads/'' @ project @ ''/'' @ x @ ''-'' @ version' @ ''-''
       @ NumberToString build' @ ''.jar''
   \<and> take (Suc (length (sent s)))
        (sent (snd (getLatestVersionDownloadURL u (JSString (project @ ''/'' @ x)) s))) =
     sent s @ [get_request s (''/projects/'' @ project @ ''/'' @ x)]"
proof -
  have "take (Suc (length (sent s)))
        (sent (snd (getLatestVersionDownloadURL u (JSString (project @ ''/'' @ x)) s))) =
     sent s @ [get_request s (''/projects/'' @ project @ ''/'' @ x)]"
    using latest_sent [of u "JSString (project @ ''/'' @ x)" s]
    by (simp split: prod.splits sum.splits option.splits)
  then show ?thesis
    by (simp add: query_defs getDownloadURL_eq)
qed

theorem identifiers_not_escaped_witness:
  "fst (getProject mock_paper (JSString ''paper/versions/1.20/builds'') (paperAPIInstance 0)) =
     Inr (paper_builds ''1.20'' [build10, build17])"
  using identifiers_not_escaped [where t = mock_paper and u = mock_paper and project = "''paper''"
    and version' = "''1.20/builds''" and s = "paperAPIInstance 0" and build' = 17
    and x = "''x''" and family = "''1.20''", THEN conjunct1]
  by (simp add: getVersion_def axios_get_eq return_data_def mock_paper_def paperAPIInstance_def
      get_request_def http_ok_def)

end
